theory Spec2Isabelle
  imports Complex_Main "HOL-Library.Sublist" "HOL-Library.AList"
begin

section \<open>Python strings\<close>

text \<open>
  A Python \<open>str\<close> is a sequence of Unicode code points; it is modelled as a list of
  natural numbers. String literals of the source are written with \<open>ustr\<close>, which maps
  every character of an ASCII literal to its code point; code points beyond ASCII (the em
  dash, emoji) are written as numbers.

  \<open>str.isspace\<close> is the set of code points Python treats as whitespace.
\<close>

type_synonym pystr = "nat list"

definition ustr :: "string \<Rightarrow> pystr" where
  "ustr s = map of_char s"

definition is_space :: "nat \<Rightarrow> bool" where
  "is_space c \<longleftrightarrow>
     (9 \<le> c \<and> c \<le> 13) \<or> (28 \<le> c \<and> c \<le> 32) \<or> c = 133 \<or> c = 160 \<or> c = 5760 \<or>
     (8192 \<le> c \<and> c \<le> 8202) \<or> c = 8232 \<or> c = 8233 \<or> c = 8239 \<or> c = 8287 \<or> c = 12288"

text \<open>
  Three functions of Python's library depend on the Unicode character database, which is
  not part of the program: \<open>str.lower\<close> (which may change the length of a string), the
  class \<open>\w\<close> of the \<open>re\<close> module, and the comparison of a character of the text with a
  literal character of a pattern compiled with \<open>re.IGNORECASE\<close>. They are parameters of the
  model: every function that uses one of them takes this record, and the general theorems
  hold for every value of it.
\<close>
record unicode =
  str_lower :: "pystr \<Rightarrow> pystr"
  re_word :: "nat \<Rightarrow> bool"
  re_ci :: "nat \<Rightarrow> nat \<Rightarrow> bool"

text \<open>\<open>s.strip()\<close>: whitespace is removed from both ends.\<close>
definition strip :: "pystr \<Rightarrow> pystr" where
  "strip s = rev (dropWhile is_space (rev (dropWhile is_space s)))"

text \<open>The maximal runs of characters satisfying \<open>P\<close>, in order. The second argument is
  the run being read, reversed.\<close>
fun runs_acc :: "(nat \<Rightarrow> bool) \<Rightarrow> pystr \<Rightarrow> pystr \<Rightarrow> pystr list" where
  "runs_acc P cur [] = (if cur = [] then [] else [rev cur])"
| "runs_acc P cur (c # cs) =
     (if P c then runs_acc P (c # cur) cs
      else if cur = [] then runs_acc P [] cs
      else rev cur # runs_acc P [] cs)"

text \<open>\<open>s.split()\<close>: the maximal runs of non-whitespace characters.\<close>
definition split_ws :: "pystr \<Rightarrow> pystr list" where
  "split_ws s = runs_acc (\<lambda>c. \<not> is_space c) [] s"

text \<open>\<open>p in s\<close>: substring containment.\<close>
fun str_in :: "pystr \<Rightarrow> pystr \<Rightarrow> bool" where
  "str_in p [] = (p = [])"
| "str_in p (c # cs) = (prefix p (c # cs) \<or> str_in p cs)"

text \<open>\<open>s.startswith(p)\<close>\<close>
definition startswith :: "pystr \<Rightarrow> pystr \<Rightarrow> bool" where
  "startswith s p = prefix p s"

section \<open>Word-boundary regular expressions\<close>

text \<open>
  \<open>re.compile(r'\b' + re.escape(p) + r'\b', re.IGNORECASE).search(text)\<close>: the literal
  \<open>p\<close> occurs in \<open>text\<close>, each character of the text matching the character of the
  pattern under \<open>re.IGNORECASE\<close>, with a word boundary on both sides. A word boundary lies
  between a word character and a non-word character, the two ends of the text counting as
  non-word. The scan carries the character before the current position (\<open>None\<close> at the
  start of the text).
\<close>

definition is_word_opt :: "unicode \<Rightarrow> nat option \<Rightarrow> bool" where
  "is_word_opt U c = (case c of None \<Rightarrow> False | Some x \<Rightarrow> re_word U x)"

definition boundary :: "unicode \<Rightarrow> nat option \<Rightarrow> nat option \<Rightarrow> bool" where
  "boundary U prev nxt \<longleftrightarrow> is_word_opt U prev \<noteq> is_word_opt U nxt"

definition head_opt :: "pystr \<Rightarrow> nat option" where
  "head_opt s = (case s of [] \<Rightarrow> None | c # _ \<Rightarrow> Some c)"

definition last_opt :: "nat option \<Rightarrow> pystr \<Rightarrow> nat option" where
  "last_opt prev s = (if s = [] then prev else Some (last s))"

definition ci_prefix :: "unicode \<Rightarrow> pystr \<Rightarrow> pystr \<Rightarrow> bool" where
  "ci_prefix U p s \<longleftrightarrow>
     length p \<le> length s \<and> list_all2 (\<lambda>c q. re_ci U c q) (take (length p) s) p"

definition match_here :: "unicode \<Rightarrow> pystr \<Rightarrow> nat option \<Rightarrow> pystr \<Rightarrow> bool" where
  "match_here U p prev s \<longleftrightarrow>
     boundary U prev (head_opt s) \<and> ci_prefix U p s \<and>
     boundary U (last_opt prev (take (length p) s)) (head_opt (drop (length p) s))"

fun search_from :: "unicode \<Rightarrow> pystr \<Rightarrow> nat option \<Rightarrow> pystr \<Rightarrow> bool" where
  "search_from U p prev [] = match_here U p prev []"
| "search_from U p prev (c # cs) =
     (match_here U p prev (c # cs) \<or> search_from U p (Some c) cs)"

definition word_search :: "unicode \<Rightarrow> pystr \<Rightarrow> pystr \<Rightarrow> bool" where
  "word_search U p text = search_from U p None text"

section \<open>Conversation states and pattern tables\<close>

datatype ConversationState =
    OUT_OF_SCOPE
  | CONFUSED
  | VALIDATION_SEEKING
  | SELF_REFLECTION
  | CAREER_CURIOSITY
  | COMPARISON
  | INFORMATION_SEEKING
  | GREETING

definition OUT_OF_SCOPE_PATTERNS :: "(string \<times> pystr list) list" where
  "OUT_OF_SCOPE_PATTERNS =
   [(''mental_health'', map ustr
       [''depressed'', ''depression'', ''anxiety'', ''anxious'', ''suicide'',
        ''self-harm'', ''self harm'', ''cutting'', ''kill myself'', ''want to die'',
        ''panic attack'', ''mental health'', ''therapy'', ''therapist'',
        ''stressed'', ''overwhelmed'', ''can't cope'', ''breaking down'']),
    (''relationships'', map ustr
       [''boyfriend'', ''girlfriend'', ''dating'', ''crush'', ''love life'',
        ''breakup'', ''broke up'', ''relationship advice'', ''ex-'', ''my ex'',
        ''cheating'', ''cheated'']),
    (''family'', map ustr
       [''parents fighting'', ''divorce'', ''family problems'', ''abuse'',
        ''hitting me'', ''beats me'', ''scared of my parents'']),
    (''politics_religion'', map ustr
       [''politics'', ''political'', ''election'', ''vote'', ''government'',
        ''religion'', ''religious'', ''god'', ''pray'', ''muslim'', ''hindu'',
        ''christian'', ''caste'', ''reservation'']),
    (''explicit'', map ustr
       [''sex'', ''porn'', ''naked'', ''nude'']),
    (''violence'', map ustr
       [''fight'', ''violence'', ''weapon'', ''gun'', ''knife'', ''hurt someone''])]"

definition CONFUSION_PATTERNS :: "pystr list" where
  "CONFUSION_PATTERNS = map ustr
     [''i don't know'', ''i dont know'', ''idk'',
      ''i'm confused'', ''im confused'', ''confused'',
      ''i have no idea'', ''no idea'',
      ''i'm lost'', ''im lost'', ''lost'',
      ''what should i do'', ''help me'',
      ''i'm not sure'', ''im not sure'', ''not sure'',
      ''don't understand'', ''dont understand'',
      ''everything is confusing'', ''so confused'',
      ''no clue'', ''clueless'']"

definition VALIDATION_PATTERNS :: "pystr list" where
  "VALIDATION_PATTERNS = map ustr
     [''am i good enough'', ''can i become'', ''will i be able to'',
      ''is it bad if'', ''is it okay if'', ''is it wrong'',
      ''should i'', ''do you think i can'',
      ''am i smart enough'', ''am i capable'',
      ''is it too late'', ''is it possible for me'',
      ''can someone like me'', ''people like me'',
      ''am i making a mistake'', ''is this a bad choice'']"

definition SELF_REFLECTION_PATTERNS :: "pystr list" where
  "SELF_REFLECTION_PATTERNS = map ustr
     [''i like'', ''i love'', ''i enjoy'',
      ''i hate'', ''i don't like'', ''i dislike'',
      ''i'm good at'', ''im good at'', ''i am good at'',
      ''i'm bad at'', ''im bad at'', ''i am bad at'',
      ''i prefer'', ''i find'', ''i feel'',
      ''interests me'', ''bores me'',
      ''i want to'', ''i wish'', ''i hope'']"

definition CAREER_PATTERNS :: "pystr list" where
  "CAREER_PATTERNS = map ustr
     [''what does a'', ''what do'', ''tell me about'',
      ''how to become'', ''how do i become'',
      ''what is it like to be'', ''what's it like'',
      ''career in'', ''job as'', ''work as'',
      ''day in the life'', ''typical day'']"

definition COMPARISON_PATTERNS :: "pystr list" where
  "COMPARISON_PATTERNS = map ustr
     ['' vs '', '' versus '', '' or '',
      ''which is better'', ''what's better'', ''whats better'',
      ''difference between'', ''compare'',
      ''should i choose'', ''science or commerce'',
      ''engineering or'', ''doctor or'', ''better option'']"

definition INFORMATION_PATTERNS :: "pystr list" where
  "INFORMATION_PATTERNS = map ustr
     [''how much'', ''salary'', ''pay'', ''income'', ''earn'',
      ''entrance exam'', ''exam'', ''jee'', ''neet'', ''cat'', ''clat'',
      ''college'', ''university'', ''iit'', ''nit'', ''aiims'',
      ''fee'', ''fees'', ''cost'', ''tuition'',
      ''eligibility'', ''qualification'', ''degree'', ''required'',
      ''years'', ''duration'', ''how long'']"

definition GREETING_PATTERNS :: "pystr list" where
  "GREETING_PATTERNS = map ustr
     [''hi'', ''hello'', ''hey'', ''hii'', ''hiii'',
      ''sup'', ''yo'', ''hola'', ''namaste'',
      ''good morning'', ''good afternoon'', ''good evening'',
      ''what's up'', ''whats up'', ''howdy'']"

section \<open>StateDetector\<close>

definition normalize_text :: "unicode \<Rightarrow> pystr \<Rightarrow> pystr" where
  "normalize_text U text = strip (str_lower U text)"

definition check_patterns :: "unicode \<Rightarrow> pystr \<Rightarrow> pystr list \<Rightarrow> bool" where
  "check_patterns U text patterns =
     (let text_lower = normalize_text U text
      in list_ex (\<lambda>pattern. str_in (str_lower U pattern) text_lower) patterns)"

text \<open>The categories are visited in the order of the table, and the first category with
  a matching pattern is returned.\<close>
definition check_out_of_scope :: "unicode \<Rightarrow> pystr \<Rightarrow> string option" where
  "check_out_of_scope U text =
     (let text_lower = normalize_text U text
      in map_option fst
           (find (\<lambda>(category, patterns). list_ex (\<lambda>p. word_search U p text_lower) patterns)
                 OUT_OF_SCOPE_PATTERNS))"

definition is_greeting :: "unicode \<Rightarrow> pystr \<Rightarrow> bool" where
  "is_greeting U text =
     (let text_lower = normalize_text U text;
          words = split_ws text_lower
      in if length words \<le> 3
         then check_patterns U text GREETING_PATTERNS
         else list_ex (\<lambda>pattern. startswith text_lower (str_lower U pattern))
                GREETING_PATTERNS)"

definition is_confused :: "unicode \<Rightarrow> pystr \<Rightarrow> bool" where
  "is_confused U text = check_patterns U text CONFUSION_PATTERNS"

definition is_validation_seeking :: "unicode \<Rightarrow> pystr \<Rightarrow> bool" where
  "is_validation_seeking U text = check_patterns U text VALIDATION_PATTERNS"

definition question_words :: "pystr list" where
  "question_words = map ustr [''what'', ''how'', ''which'', ''where'', ''when'', ''why'', ''?'']"

definition reflection_override :: "pystr list" where
  "reflection_override =
     map ustr [''i like'', ''i love'', ''i enjoy'', ''i hate'', ''i'm good at'', ''i prefer'']"

definition is_question :: "unicode \<Rightarrow> pystr \<Rightarrow> bool" where
  "is_question U text = list_ex (\<lambda>q. str_in q (normalize_text U text)) question_words"

definition is_self_reflection :: "unicode \<Rightarrow> pystr \<Rightarrow> bool" where
  "is_self_reflection U text =
     (let text_lower = normalize_text U text
      in if check_patterns U text SELF_REFLECTION_PATTERNS
         then (\<not> is_question U text) \<or>
              list_ex (\<lambda>p. str_in (str_lower U p) text_lower) reflection_override
         else False)"

definition is_career_curiosity :: "unicode \<Rightarrow> pystr \<Rightarrow> bool" where
  "is_career_curiosity U text = check_patterns U text CAREER_PATTERNS"

definition is_comparison :: "unicode \<Rightarrow> pystr \<Rightarrow> bool" where
  "is_comparison U text = check_patterns U text COMPARISON_PATTERNS"

definition is_information_seeking :: "unicode \<Rightarrow> pystr \<Rightarrow> bool" where
  "is_information_seeking U text = check_patterns U text INFORMATION_PATTERNS"

text \<open>The truth value Python gives an \<open>Optional[str]\<close>.\<close>
definition truthy :: "string option \<Rightarrow> bool" where
  "truthy r = (case r of None \<Rightarrow> False | Some s \<Rightarrow> s \<noteq> [])"

text \<open>The rules that follow self-reflection in \<open>detect_state\<close>.\<close>
definition later_rules :: "unicode \<Rightarrow> pystr \<Rightarrow> ConversationState" where
  "later_rules U user_input =
     (if is_comparison U user_input then COMPARISON
      else if is_career_curiosity U user_input then CAREER_CURIOSITY
      else if is_information_seeking U user_input then INFORMATION_SEEKING
      else CAREER_CURIOSITY)"

definition detect_state :: "unicode \<Rightarrow> pystr \<Rightarrow> ConversationState" where
  "detect_state U user_input =
     (if user_input = [] \<or> strip user_input = [] then CONFUSED
      else if truthy (check_out_of_scope U user_input) then OUT_OF_SCOPE
      else if is_greeting U user_input then GREETING
      else if is_confused U user_input then CONFUSED
      else if is_validation_seeking U user_input then VALIDATION_SEEKING
      else if is_self_reflection U user_input then SELF_REFLECTION
      else later_rules U user_input)"

section \<open>ResponseGuardrails\<close>

definition FORBIDDEN_RECOMMENDATION_PHRASES :: "pystr list" where
  "FORBIDDEN_RECOMMENDATION_PHRASES = map ustr
     [''you should become'', ''you should be a'', ''you would be a great'',
      ''you would make a great'', ''you are suited for'', ''you're suited for'',
      ''you are perfect for'', ''you're perfect for'', ''i recommend'',
      ''i suggest you become'', ''you should pursue'', ''you should definitely'',
      ''you must become'']"

definition FORBIDDEN_CORPORATE_PHRASES :: "pystr list" where
  "FORBIDDEN_CORPORATE_PHRASES = map ustr
     [''unlock your potential'', ''chase your dreams'', ''synergy'', ''leverage your'',
      ''optimize your'', ''maximize your'', ''strategic career'', ''career trajectory'',
      ''professional development'', ''skill acquisition'', ''paradigm shift'']"

definition FORBIDDEN_JUDGMENTAL_PHRASES :: "pystr list" where
  "FORBIDDEN_JUDGMENTAL_PHRASES = map ustr
     [''you're not smart enough'', ''you're not good enough'', ''that's a bad choice'',
      ''that's a wrong choice'', ''you shouldn't'', ''that's unrealistic'',
      ''you can't become'']"

text \<open>The character class of \<open>emoji_pattern\<close>.\<close>
definition is_emoji :: "nat \<Rightarrow> bool" where
  "is_emoji c \<longleftrightarrow>
     (0x1F600 \<le> c \<and> c \<le> 0x1F64F) \<or> (0x1F300 \<le> c \<and> c \<le> 0x1F5FF) \<or>
     (0x1F680 \<le> c \<and> c \<le> 0x1F6FF) \<or> (0x1F700 \<le> c \<and> c \<le> 0x1F77F) \<or>
     (0x1F780 \<le> c \<and> c \<le> 0x1F7FF) \<or> (0x1F800 \<le> c \<and> c \<le> 0x1F8FF) \<or>
     (0x1F900 \<le> c \<and> c \<le> 0x1F9FF) \<or> (0x1FA00 \<le> c \<and> c \<le> 0x1FA6F) \<or>
     (0x1FA70 \<le> c \<and> c \<le> 0x1FAFF) \<or> (0x2702 \<le> c \<and> c \<le> 0x27B0) \<or>
     (0x24C2 \<le> c \<and> c \<le> 0x1F251)"

text \<open>\<open>emoji_pattern.findall(text)\<close>: the pattern is the character class followed by
  \<open>+\<close>, so every match is a maximal run of characters of the class.\<close>
definition emoji_findall :: "pystr \<Rightarrow> pystr list" where
  "emoji_findall text = runs_acc is_emoji [] text"

definition count_questions :: "pystr \<Rightarrow> nat" where
  "count_questions text = count_list text 63"

definition count_emojis :: "pystr \<Rightarrow> nat" where
  "count_emojis text = length (emoji_findall text)"

text \<open>\<open>text.split('\n\n')\<close>: the pieces between the occurrences of two line feeds, found
  from the left and not overlapping. The first argument is the piece being read, reversed.\<close>
fun split_blank_acc :: "pystr \<Rightarrow> pystr \<Rightarrow> pystr list" where
  "split_blank_acc cur (a # b # cs) =
     (if a = 10 \<and> b = 10 then rev cur # split_blank_acc [] cs
      else split_blank_acc (a # cur) (b # cs))"
| "split_blank_acc cur [a] = [rev (a # cur)]"
| "split_blank_acc cur [] = [rev cur]"

definition count_paragraphs :: "pystr \<Rightarrow> nat" where
  "count_paragraphs text = length (filter (\<lambda>p. strip p \<noteq> []) (split_blank_acc [] text))"

definition check_forbidden_phrases :: "unicode \<Rightarrow> pystr \<Rightarrow> pystr list" where
  "check_forbidden_phrases U text =
     (let text_lower = str_lower U text;
          all_forbidden = FORBIDDEN_RECOMMENDATION_PHRASES @ FORBIDDEN_CORPORATE_PHRASES @
                          FORBIDDEN_JUDGMENTAL_PHRASES
      in filter (\<lambda>phrase. str_in phrase text_lower) all_forbidden)"

text \<open>The violation messages of \<open>validate_response\<close>, with the values they are formatted
  from.\<close>
datatype violation =
    TooManyQuestions nat nat ConversationState
  | TooManyEmojis nat
  | ForbiddenPhrasesFound "pystr list"
  | ResponseTooLong nat
  | MustUseCanonical

text \<open>The literal \<open>expected_start\<close> of \<open>validate_response\<close>; its dash is U+2014.\<close>
definition expected_start :: pystr where
  "expected_start = ustr ''I'm sorry '' @ [0x2014] @ ustr '' I don't have the right context''"

text \<open>The constant of \<open>conversation/constants.py\<close> as the file holds it: where the other
  files have the dash U+2014, this literal has the three characters U+00E2, U+20AC, U+201D.\<close>
definition CANONICAL_OUT_OF_SCOPE_RESPONSE :: pystr where
  "CANONICAL_OUT_OF_SCOPE_RESPONSE =
     ustr ''I'm sorry '' @ [0xE2, 0x20AC, 0x201D] @
     ustr '' I don't have the right context to answer this.'' @ [10, 10] @
     ustr ''I can help with careers, education, and future planning, but for this it would be better to speak with a trusted adult like a teacher or parent.'' @ [10, 10] @
     ustr ''If you'd like, we can talk about your studies, career options, or future plans.''"

definition max_questions_for :: "ConversationState \<Rightarrow> nat" where
  "max_questions_for state =
     (let max_questions =
            (if state \<in> set [CONFUSED, VALIDATION_SEEKING, SELF_REFLECTION] then 1 else 2)
      in if state = OUT_OF_SCOPE then 0 else max_questions)"

definition validate_response ::
  "unicode \<Rightarrow> pystr \<Rightarrow> ConversationState \<Rightarrow> bool \<times> violation list" where
  "validate_response U response state =
     (let question_count = count_questions response;
          max_questions = max_questions_for state;
          v1 = (if question_count > max_questions
                then [TooManyQuestions question_count max_questions state] else []);
          emoji_count = count_emojis response;
          v2 = (if emoji_count > 1 then [TooManyEmojis emoji_count] else []);
          forbidden = check_forbidden_phrases U response;
          v3 = (if forbidden \<noteq> [] then [ForbiddenPhrasesFound forbidden] else []);
          paragraph_count = count_paragraphs response;
          v4 = (if paragraph_count > 5 then [ResponseTooLong paragraph_count] else []);
          v5 = (if state = OUT_OF_SCOPE \<and> \<not> startswith (strip response) expected_start
                then [MustUseCanonical] else []);
          violations = v1 @ v2 @ v3 @ v4 @ v5
      in (violations = [], violations))"

section \<open>MemoryStore\<close>

text \<open>
  The entries of the profile lists are JSON objects; the record has the keys the extractor
  writes and the store reads, \<open>None\<close> for an absent key. Confidences are compared only
  for order and are modelled as reals.
\<close>

record item =
  content :: "pystr option"
  career :: "pystr option"
  confidence :: "real option"
  sentiment :: "pystr option"
  mention_context :: "pystr option"
  extracted_at :: "pystr option"

record profile =
  interests :: "item list"
  dislikes :: "item list"
  strengths :: "item list"
  challenges :: "item list"
  career_mentions :: "item list"

type_synonym store = "int \<rightharpoonup> profile"

type_synonym extractions = "string \<rightharpoonup> item list"

text \<open>\<open>item.get("content", item.get("career", "")).lower()\<close>\<close>
definition item_key :: "unicode \<Rightarrow> item \<Rightarrow> pystr" where
  "item_key U it =
     str_lower U (case content it of Some c \<Rightarrow> c
                  | None \<Rightarrow> (case career it of Some c \<Rightarrow> c | None \<Rightarrow> []))"

text \<open>\<open>item.get("confidence", 0)\<close>\<close>
definition item_conf :: "item \<Rightarrow> real" where
  "item_conf it = (case confidence it of Some c \<Rightarrow> c | None \<Rightarrow> 0)"

text \<open>The dictionary \<open>merged\<close> is an association list in insertion order: assigning to a
  key that is present replaces its value in place, assigning to a new key appends.\<close>
definition merge_existing_step ::
  "unicode \<Rightarrow> (pystr \<times> item) list \<Rightarrow> item \<Rightarrow> (pystr \<times> item) list" where
  "merge_existing_step U merged it = AList.update (item_key U it) it merged"

definition merge_new_step ::
  "unicode \<Rightarrow> (pystr \<times> item) list \<Rightarrow> item \<Rightarrow> (pystr \<times> item) list" where
  "merge_new_step U merged it =
     (let key = item_key U it
      in case map_of merged key of
           None \<Rightarrow> AList.update key it merged
         | Some old \<Rightarrow> if item_conf it > item_conf old then AList.update key it merged
                       else merged)"

definition merge_items :: "unicode \<Rightarrow> item list \<Rightarrow> item list \<Rightarrow> item list" where
  "merge_items U existing new =
     map snd (foldl (merge_new_step U) (foldl (merge_existing_step U) [] existing) new)"

definition empty_profile :: profile where
  "empty_profile = \<lparr>interests = [], dislikes = [], strengths = [], challenges = [],
                     career_mentions = []\<rparr>"

definition get_or_create_profile :: "store \<Rightarrow> int \<Rightarrow> profile \<times> store" where
  "get_or_create_profile st student_id =
     (case st student_id of
        Some p \<Rightarrow> (p, st)
      | None \<Rightarrow> (empty_profile, st(student_id \<mapsto> empty_profile)))"

text \<open>\<open>if extractions.get(k): profile.k = self._merge_items(profile.k, extractions[k])\<close>: an
  absent key and an empty list are both false.\<close>
definition merge_field :: "unicode \<Rightarrow> item list \<Rightarrow> item list option \<Rightarrow> item list" where
  "merge_field U existing new =
     (case new of
        None \<Rightarrow> existing
      | Some [] \<Rightarrow> existing
      | Some (x # xs) \<Rightarrow> merge_items U existing (x # xs))"

definition update_profile ::
  "unicode \<Rightarrow> store \<Rightarrow> int \<Rightarrow> extractions \<Rightarrow> profile \<times> store" where
  "update_profile U st student_id ex =
     (let (p, st1) = get_or_create_profile st student_id;
          p1 = p\<lparr>interests := merge_field U (interests p) (ex ''interests'')\<rparr>;
          p2 = p1\<lparr>dislikes := merge_field U (dislikes p1) (ex ''dislikes'')\<rparr>;
          p3 = p2\<lparr>strengths := merge_field U (strengths p2) (ex ''strengths'')\<rparr>;
          p4 = p3\<lparr>challenges := merge_field U (challenges p3) (ex ''challenges'')\<rparr>;
          p5 = p4\<lparr>career_mentions :=
                     merge_field U (career_mentions p4) (ex ''career_mentions'')\<rparr>
      in (p5, st1(student_id \<mapsto> p5)))"

text \<open>A sequence of \<open>update_profile\<close> calls, each with its student and its extractions.\<close>
fun run_updates :: "unicode \<Rightarrow> store \<Rightarrow> (int \<times> extractions) list \<Rightarrow> store" where
  "run_updates U st [] = st"
| "run_updates U st ((student_id, ex) # ops) =
     run_updates U (snd (update_profile U st student_id ex)) ops"

text \<open>The dictionary \<open>extract_from_message\<close> starts from, and returns when nothing was
  appended to it.\<close>
definition empty_extractions :: extractions where
  "empty_extractions =
     [''interests'' \<mapsto> [], ''dislikes'' \<mapsto> [], ''strengths'' \<mapsto> [],
      ''challenges'' \<mapsto> [], ''career_mentions'' \<mapsto> []]"

record summary =
  s_interests :: "pystr list"
  s_dislikes :: "pystr list"
  s_strengths :: "pystr list"
  s_challenges :: "pystr list"
  s_careers_discussed :: "pystr list"

text \<open>\<open>[i.get("content") for i in items if i.get("content")]\<close>: the empty string is false.\<close>
definition contents_of :: "item list \<Rightarrow> pystr list" where
  "contents_of items =
     concat (map (\<lambda>i. case content i of None \<Rightarrow> [] | Some c \<Rightarrow> if c = [] then [] else [c])
                 items)"

definition careers_of :: "item list \<Rightarrow> pystr list" where
  "careers_of items =
     concat (map (\<lambda>c. case career c of
                          None \<Rightarrow> []
                        | Some k \<Rightarrow> if k \<noteq> [] \<and> sentiment c \<noteq> Some (ustr ''negative'')
                                    then [k] else [])
                 items)"

definition get_profile_summary :: "store \<Rightarrow> int \<Rightarrow> summary \<times> store" where
  "get_profile_summary st student_id =
     (let (p, st1) = get_or_create_profile st student_id
      in (\<lparr>s_interests = contents_of (interests p),
           s_dislikes = contents_of (dislikes p),
           s_strengths = contents_of (strengths p),
           s_challenges = contents_of (challenges p),
           s_careers_discussed = careers_of (career_mentions p)\<rparr>, st1))"

section \<open>MemoryReferencer\<close>

record referencer =
  min_messages_between :: int
  last_reference_message_idx :: "int \<rightharpoonup> int"

definition new_referencer :: "int \<Rightarrow> referencer" where
  "new_referencer min_messages_between_refs =
     \<lparr>min_messages_between = min_messages_between_refs,
      last_reference_message_idx = Map.empty\<rparr>"

definition has_memories :: "summary \<Rightarrow> bool" where
  "has_memories s \<longleftrightarrow>
     s_interests s \<noteq> [] \<or> s_dislikes s \<noteq> [] \<or> s_strengths s \<noteq> [] \<or>
     s_careers_discussed s \<noteq> []"

text \<open>The last argument is the number \<open>random.random()\<close> returns in this call.\<close>
definition should_reference_memory ::
  "referencer \<Rightarrow> store \<Rightarrow> int \<Rightarrow> int \<Rightarrow> real \<Rightarrow> bool \<times> store" where
  "should_reference_memory r st student_id current_message_idx rnd =
     (let last_ref_idx =
            (case last_reference_message_idx r student_id of
               Some i \<Rightarrow> i
             | None \<Rightarrow> - min_messages_between r)
      in if current_message_idx - last_ref_idx < min_messages_between r then (False, st)
         else (let (profile_summary, st1) = get_profile_summary st student_id
               in if \<not> has_memories profile_summary then (False, st1)
                  else (rnd < 0.4, st1)))"

definition record_reference_used :: "referencer \<Rightarrow> int \<Rightarrow> int \<Rightarrow> referencer" where
  "record_reference_used r student_id message_idx =
     r\<lparr>last_reference_message_idx := (last_reference_message_idx r)(student_id \<mapsto> message_idx)\<rparr>"

section \<open>Notions used in the statements\<close>

text \<open>All trigger phrases of the out-of-scope table, and the texts in which the compiled
  pattern of one of them matches.\<close>
definition trigger_phrases :: "pystr list" where
  "trigger_phrases = concat (map snd OUT_OF_SCOPE_PATTERNS)"

definition trigger_match :: "unicode \<Rightarrow> pystr \<Rightarrow> bool" where
  "trigger_match U text = list_ex (\<lambda>p. word_search U p text) trigger_phrases"

text \<open>None of the eight rules of \<open>detect_state\<close> applies to a message that is not blank.\<close>
definition no_rule_matches :: "unicode \<Rightarrow> pystr \<Rightarrow> bool" where
  "no_rule_matches U msg \<longleftrightarrow>
     strip msg \<noteq> [] \<and> \<not> truthy (check_out_of_scope U msg) \<and> \<not> is_greeting U msg \<and>
     \<not> is_confused U msg \<and> \<not> is_validation_seeking U msg \<and> \<not> is_self_reflection U msg \<and>
     \<not> is_comparison U msg \<and> \<not> is_career_curiosity U msg \<and>
     \<not> is_information_seeking U msg"

text \<open>Nothing that precedes the self-reflection rule applies: the message is not blank and
  matches none of the four rules of higher priority.\<close>
definition no_higher_priority_rule :: "unicode \<Rightarrow> pystr \<Rightarrow> bool" where
  "no_higher_priority_rule U msg \<longleftrightarrow>
     strip msg \<noteq> [] \<and> \<not> truthy (check_out_of_scope U msg) \<and> \<not> is_greeting U msg \<and>
     \<not> is_confused U msg \<and> \<not> is_validation_seeking U msg"

text \<open>The normalized message contains, respectively begins with, one of the phrases of the
  hard-coded list in \<open>_is_self_reflection\<close>.\<close>
definition contains_override :: "unicode \<Rightarrow> pystr \<Rightarrow> bool" where
  "contains_override U msg =
     list_ex (\<lambda>p. str_in (str_lower U p) (normalize_text U msg)) reflection_override"

definition begins_with_override :: "unicode \<Rightarrow> pystr \<Rightarrow> bool" where
  "begins_with_override U msg =
     list_ex (\<lambda>p. startswith (normalize_text U msg) (str_lower U p)) reflection_override"

text \<open>
  The classifier as the specification words it, to be compared with \<open>detect_state\<close>: blank
  input gives \<open>CONFUSED\<close>; otherwise the rules are tried in the fixed priority order, the
  first rule that matches gives the state, and \<open>CAREER_CURIOSITY\<close> is the state when none
  matches.
\<close>
definition spec_priority_rules :: "unicode \<Rightarrow> ((pystr \<Rightarrow> bool) \<times> ConversationState) list" where
  "spec_priority_rules U =
     [(\<lambda>msg. truthy (check_out_of_scope U msg), OUT_OF_SCOPE),
      (is_greeting U, GREETING),
      (is_confused U, CONFUSED),
      (is_validation_seeking U, VALIDATION_SEEKING),
      (is_self_reflection U, SELF_REFLECTION),
      (is_comparison U, COMPARISON),
      (is_career_curiosity U, CAREER_CURIOSITY),
      (is_information_seeking U, INFORMATION_SEEKING)]"

definition spec_detect :: "unicode \<Rightarrow> pystr \<Rightarrow> ConversationState" where
  "spec_detect U msg =
     (if strip msg = [] then CONFUSED
      else case find (\<lambda>rule. fst rule msg) (spec_priority_rules U) of
             Some rule \<Rightarrow> snd rule
           | None \<Rightarrow> CAREER_CURIOSITY)"

text \<open>The JSON object \<open>{"content": c, "confidence": conf}\<close>.\<close>
definition mk_trait :: "pystr \<Rightarrow> real \<Rightarrow> item" where
  "mk_trait c conf = \<lparr>content = Some c, career = None, confidence = Some conf, sentiment = None,
                        mention_context = None, extracted_at = None\<rparr>"

text \<open>An association list whose keys are distinct and are the keys of its values: the
  invariant of the dictionary \<open>merged\<close>.\<close>
definition keyed :: "unicode \<Rightarrow> (pystr \<times> item) list \<Rightarrow> bool" where
  "keyed U al \<longleftrightarrow> distinct (map fst al) \<and> (\<forall>e \<in> set al. item_key U (snd e) = fst e)"

definition deduplicated :: "unicode \<Rightarrow> profile \<Rightarrow> bool" where
  "deduplicated U p \<longleftrightarrow>
     distinct (map (item_key U) (interests p)) \<and> distinct (map (item_key U) (dislikes p)) \<and>
     distinct (map (item_key U) (strengths p)) \<and> distinct (map (item_key U) (challenges p)) \<and>
     distinct (map (item_key U) (career_mentions p))"

definition store_deduplicated :: "unicode \<Rightarrow> store \<Rightarrow> bool" where
  "store_deduplicated U st \<longleftrightarrow> (\<forall>sid p. st sid = Some p \<longrightarrow> deduplicated U p)"

text \<open>The value of \<open>extractions.get(k)\<close> is false: the key is absent or maps to the empty
  list.\<close>
definition falsy :: "item list option \<Rightarrow> bool" where
  "falsy v \<longleftrightarrow> v = None \<or> v = Some []"

text \<open>A store in which student 1 has one interest.\<close>
definition store_reading :: store where
  "store_reading = [1 \<mapsto> empty_profile\<lparr>interests := [mk_trait (ustr ''reading'') 0.8]\<rparr>]"

text \<open>The texts of the emoji examples: the code points U+1F60A, U+1F389, U+1F44D.\<close>
definition three_emoji_text :: pystr where
  "three_emoji_text = [0x1F60A, 0x1F389, 0x1F44D] @ ustr '' great!''"

definition one_emoji_text :: pystr where
  "one_emoji_text = [0x1F60A] @ ustr '' great!''"

text \<open>The word \<open>POLITICS\<close> written with the dotted capital I, U+0130.\<close>
definition dotted_politics :: pystr where
  "dotted_politics = [80, 79, 76, 0x130, 84, 0x130, 67, 83]"

section \<open>The library functions on the characters of the examples\<close>

text \<open>
  The concrete examples are evaluated with the following values of the three library
  functions. They are Python's on the characters that occur in the examples:

  \<^item> \<open>py_lower\<close> is \<open>str.lower\<close> on every string in which \<open>str.lower\<close> changes no other
    characters than \<open>A\<close> to \<open>Z\<close>, U+0130 (which becomes \<open>i\<close> followed by U+0307) and
    U+212A (which becomes \<open>k\<close>);
  \<^item> \<open>py_word\<close> is \<open>\w\<close> on the ASCII characters, on the letters U+0130, U+0131, U+017F
    and U+212A, and on every character that is not alphanumeric;
  \<^item> \<open>py_ci c q\<close> is the match of the character \<open>c\<close> with the literal \<open>q\<close> under
    \<open>re.IGNORECASE\<close> for every ASCII literal \<open>q\<close> and every character \<open>c\<close>: beyond the
    two cases of a letter, \<open>i\<close> matches U+0130 and U+0131, \<open>s\<close> matches U+017F and
    \<open>k\<close> matches U+212A.
\<close>

definition py_lower_cp :: "nat \<Rightarrow> pystr" where
  "py_lower_cp c =
     (if 65 \<le> c \<and> c \<le> 90 then [c + 32]
      else if c = 0x130 then [0x69, 0x307]
      else if c = 0x212A then [0x6B]
      else [c])"

definition py_lower :: "pystr \<Rightarrow> pystr" where
  "py_lower s = concat (map py_lower_cp s)"

definition py_word :: "nat \<Rightarrow> bool" where
  "py_word c \<longleftrightarrow>
     (48 \<le> c \<and> c \<le> 57) \<or> (65 \<le> c \<and> c \<le> 90) \<or> (97 \<le> c \<and> c \<le> 122) \<or> c = 95 \<or>
     c = 0x130 \<or> c = 0x131 \<or> c = 0x17F \<or> c = 0x212A"

definition py_fold :: "nat \<Rightarrow> nat" where
  "py_fold c =
     (if 65 \<le> c \<and> c \<le> 90 then c + 32
      else if c = 0x130 \<or> c = 0x131 then 0x69
      else if c = 0x17F then 0x73
      else if c = 0x212A then 0x6B
      else c)"

definition py_ci :: "nat \<Rightarrow> nat \<Rightarrow> bool" where
  "py_ci c q \<longleftrightarrow> py_fold c = py_fold q"

definition py_unicode :: unicode where
  "py_unicode = \<lparr>str_lower = py_lower, re_word = py_word, re_ci = py_ci\<rparr>"

section \<open>Evaluation\<close>

lemma py_unicode_select:
  "str_lower py_unicode = py_lower" "re_word py_unicode = py_word" "re_ci py_unicode = py_ci"
  by (simp_all add: py_unicode_def)

lemmas str_defs = ustr_def normalize_text_def strip_def is_space_def split_ws_def startswith_def
  py_unicode_select py_lower_def py_lower_cp_def py_word_def py_ci_def py_fold_def

lemmas re_defs = word_search_def match_here_def boundary_def is_word_opt_def head_opt_def
  last_opt_def ci_prefix_def

lemmas det_defs = detect_state_def later_rules_def truthy_def check_out_of_scope_def
  check_patterns_def is_greeting_def is_confused_def is_validation_seeking_def
  is_self_reflection_def is_question_def is_comparison_def is_career_curiosity_def
  is_information_seeking_def question_words_def reflection_override_def
  OUT_OF_SCOPE_PATTERNS_def CONFUSION_PATTERNS_def VALIDATION_PATTERNS_def
  SELF_REFLECTION_PATTERNS_def CAREER_PATTERNS_def COMPARISON_PATTERNS_def
  INFORMATION_PATTERNS_def GREETING_PATTERNS_def

lemmas stmt_defs = trigger_match_def trigger_phrases_def no_rule_matches_def
  no_higher_priority_rule_def contains_override_def begins_with_override_def

lemmas val_defs = validate_response_def max_questions_for_def count_questions_def count_emojis_def
  emoji_findall_def is_emoji_def count_paragraphs_def check_forbidden_phrases_def
  FORBIDDEN_RECOMMENDATION_PHRASES_def FORBIDDEN_CORPORATE_PHRASES_def
  FORBIDDEN_JUDGMENTAL_PHRASES_def expected_start_def Let_def

lemmas item_defs = Let_def merge_items_def merge_new_step_def merge_existing_step_def item_key_def
  item_conf_def mk_trait_def py_unicode_select py_lower_def py_lower_cp_def ustr_def

section \<open>The priority cascade of the state detector\<close>

lemma strip_Nil: "strip [] = []"
  by (simp add: strip_def)

lemma category_names_nonempty: "list_all (\<lambda>e. fst e \<noteq> []) OUT_OF_SCOPE_PATTERNS"
  by (simp add: OUT_OF_SCOPE_PATTERNS_def)

lemma check_out_of_scope_truthy:
  assumes "trigger_match U (normalize_text U msg)"
  shows "truthy (check_out_of_scope U msg)"
proof -
  let ?P = "\<lambda>(category, patterns). list_ex (\<lambda>p. word_search U p (normalize_text U msg)) patterns"
  from assms obtain p where p: "p \<in> set trigger_phrases" "word_search U p (normalize_text U msg)"
    by (auto simp: trigger_match_def list_ex_iff)
  from p(1) obtain e where e: "e \<in> set OUT_OF_SCOPE_PATTERNS" "p \<in> set (snd e)"
    by (auto simp: trigger_phrases_def)
  then have "?P e" using p(2) by (cases e) (auto simp: list_ex_iff)
  then have "find ?P OUT_OF_SCOPE_PATTERNS \<noteq> None" using e(1) by (auto simp: find_None_iff)
  then obtain f where f: "find ?P OUT_OF_SCOPE_PATTERNS = Some f" by blast
  then have "f \<in> set OUT_OF_SCOPE_PATTERNS" by (auto simp: find_Some_iff in_set_conv_nth)
  then have "fst f \<noteq> []" using category_names_nonempty by (simp add: list_all_iff)
  then show ?thesis using f by (simp add: check_out_of_scope_def truthy_def Let_def)
qed

lemma detect_out_of_scope_general:
  assumes "strip msg \<noteq> []" "trigger_match U (normalize_text U msg)"
  shows "detect_state U msg = OUT_OF_SCOPE"
proof -
  have "msg \<noteq> []" using assms(1) by (auto simp: strip_def)
  moreover have "truthy (check_out_of_scope U msg)"
    using assms(2) by (rule check_out_of_scope_truthy)
  ultimately show ?thesis using assms(1) by (simp add: detect_state_def)
qed

lemma depressed_example:
  "detect_state py_unicode (ustr ''I'm depressed about my career choices'') = OUT_OF_SCOPE"
proof (rule detect_out_of_scope_general)
  show "strip (ustr ''I'm depressed about my career choices'') \<noteq> []"
    by (simp add: str_defs)
  have "word_search py_unicode (ustr ''depressed'')
          (normalize_text py_unicode (ustr ''I'm depressed about my career choices''))"
    by (simp add: str_defs re_defs)
  moreover have "ustr ''depressed'' \<in> set trigger_phrases"
    by (simp add: trigger_phrases_def OUT_OF_SCOPE_PATTERNS_def)
  ultimately show "trigger_match py_unicode
      (normalize_text py_unicode (ustr ''I'm depressed about my career choices''))"
    unfolding trigger_match_def list_ex_iff by blast
qed

text \<open>
  Claim C1, as stated, at the message \<open>POLITICS\<close> written with the dotted capital I (U+0130):
  the compiled pattern of the trigger phrase \<open>politics\<close> matches the message, between word
  boundaries, because U+0130 matches \<open>i\<close> under \<open>re.IGNORECASE\<close>; but \<open>_check_out_of_scope\<close>
  searches the lowercased message, in which U+0130 has become \<open>i\<close> followed by U+0307, finds
  nothing, and the message is classified as \<open>CAREER_CURIOSITY\<close>.
\<close>
theorem trigger_lost_by_lowercasing:
  "word_search py_unicode (ustr ''politics'') dotted_politics \<and>
   trigger_match py_unicode dotted_politics \<and>
   normalize_text py_unicode dotted_politics =
     [0x70, 0x6F, 0x6C, 0x69, 0x307, 0x74, 0x69, 0x307, 0x63, 0x73] \<and>
   detect_state py_unicode dotted_politics = CAREER_CURIOSITY"
proof -
  have w: "word_search py_unicode (ustr ''politics'') dotted_politics"
    by (simp add: dotted_politics_def str_defs re_defs)
  moreover have "ustr ''politics'' \<in> set trigger_phrases"
    by (simp add: trigger_phrases_def OUT_OF_SCOPE_PATTERNS_def)
  ultimately have "trigger_match py_unicode dotted_politics"
    unfolding trigger_match_def list_ex_iff by blast
  moreover have "normalize_text py_unicode dotted_politics =
     [0x70, 0x6F, 0x6C, 0x69, 0x307, 0x74, 0x69, 0x307, 0x63, 0x73]"
    by (simp add: dotted_politics_def str_defs)
  moreover have "detect_state py_unicode dotted_politics = CAREER_CURIOSITY"
    by (simp add: dotted_politics_def det_defs str_defs re_defs)
  ultimately show ?thesis using w by blast
qed

text \<open>
  Claim C1, amended. A message that is not blank and in whose lowercased, trimmed text the
  compiled pattern of a trigger phrase matches (case-insensitively, between word boundaries)
  is classified as \<open>OUT_OF_SCOPE\<close>, whatever else it contains and whatever the three library
  functions are; so is the message \<open>I'm depressed about my career choices\<close>.
\<close>
theorem out_of_scope_has_priority:
  "(strip msg \<noteq> [] \<and> trigger_match U (normalize_text U msg) \<longrightarrow>
      detect_state U msg = OUT_OF_SCOPE) \<and>
   detect_state py_unicode (ustr ''I'm depressed about my career choices'') = OUT_OF_SCOPE"
  using detect_out_of_scope_general depressed_example by blast

theorem out_of_scope_has_priority_witness:
  "strip (ustr ''Hi, what does a therapist do'') \<noteq> [] \<and>
   trigger_match py_unicode (normalize_text py_unicode (ustr ''Hi, what does a therapist do'')) \<and>
   is_greeting py_unicode (ustr ''Hi, what does a therapist do'') \<and>
   is_career_curiosity py_unicode (ustr ''Hi, what does a therapist do'') \<and>
   detect_state py_unicode (ustr ''Hi, what does a therapist do'') = OUT_OF_SCOPE"
proof -
  have s: "strip (ustr ''Hi, what does a therapist do'') \<noteq> []"
    by (simp add: str_defs)
  have t: "trigger_match py_unicode
             (normalize_text py_unicode (ustr ''Hi, what does a therapist do''))"
    by (simp add: stmt_defs OUT_OF_SCOPE_PATTERNS_def str_defs re_defs)
  have g: "is_greeting py_unicode (ustr ''Hi, what does a therapist do'')"
    by (simp add: is_greeting_def check_patterns_def GREETING_PATTERNS_def str_defs)
  have c: "is_career_curiosity py_unicode (ustr ''Hi, what does a therapist do'')"
    by (simp add: is_career_curiosity_def check_patterns_def CAREER_PATTERNS_def str_defs)
  show ?thesis
    using s t g c
      out_of_scope_has_priority[of "ustr ''Hi, what does a therapist do''" py_unicode]
    by simp
qed

lemma blank_strip: "list_all is_space ws \<Longrightarrow> strip ws = []"
proof -
  assume "list_all is_space ws"
  then have d: "dropWhile is_space ws = []" by (induction ws) simp_all
  show ?thesis unfolding strip_def d by simp
qed

lemma detect_blank: "list_all is_space ws \<Longrightarrow> detect_state U ws = CONFUSED"
  by (simp add: detect_state_def blank_strip)

lemma detect_default: "no_rule_matches U msg \<Longrightarrow> detect_state U msg = CAREER_CURIOSITY"
  by (auto simp: no_rule_matches_def detect_state_def later_rules_def strip_Nil)

lemma detect_is_spec: "detect_state U msg = spec_detect U msg"
proof (cases "strip msg = []")
  case True
  then show ?thesis by (simp add: detect_state_def spec_detect_def)
next
  case False
  then have "msg \<noteq> []" by (auto simp: strip_def)
  then show ?thesis using False
    by (simp add: detect_state_def spec_detect_def spec_priority_rules_def later_rules_def)
qed

text \<open>
  Claim C3. \<open>detect_state\<close> has no failing path and returns, for every message, the one state
  the priority cascade of the specification determines: \<open>CONFUSED\<close> for blank input, else the
  state of the first matching rule, else \<open>CAREER_CURIOSITY\<close>. The empty message, the message
  of three spaces and every message of whitespace only are classified as \<open>CONFUSED\<close>; a
  message that no rule matches is classified as \<open>CAREER_CURIOSITY\<close>.
\<close>
theorem detect_state_total:
  "detect_state U [] = CONFUSED \<and>
   detect_state U (ustr ''   '') = CONFUSED \<and>
   (list_all is_space ws \<longrightarrow> detect_state U ws = CONFUSED) \<and>
   (no_rule_matches U msg \<longrightarrow> detect_state U msg = CAREER_CURIOSITY) \<and>
   detect_state U msg = spec_detect U msg"
proof -
  have "detect_state U [] = CONFUSED" by (simp add: detect_state_def)
  moreover have "detect_state U (ustr ''   '') = CONFUSED"
    by (rule detect_blank) (simp add: ustr_def is_space_def)
  ultimately show ?thesis using detect_blank detect_default detect_is_spec by blast
qed

theorem detect_state_total_witness:
  "list_all is_space [9, 32, 10] \<and> detect_state py_unicode [9, 32, 10] = CONFUSED \<and>
   no_rule_matches py_unicode (ustr ''music rocks'') \<and>
   detect_state py_unicode (ustr ''music rocks'') = CAREER_CURIOSITY \<and>
   spec_detect py_unicode (ustr ''music rocks'') = CAREER_CURIOSITY"
proof -
  have a: "list_all is_space [9, 32, 10]" by (simp add: is_space_def)
  have b: "no_rule_matches py_unicode (ustr ''music rocks'')"
    by (simp add: stmt_defs det_defs str_defs re_defs)
  show ?thesis
    using a b detect_state_total[of py_unicode "[9, 32, 10]" "ustr ''music rocks''"] by metis
qed

lemma later_rules_not_reflection: "later_rules U msg \<noteq> SELF_REFLECTION"
  by (simp add: later_rules_def)

lemma detect_at_self_reflection:
  assumes "no_higher_priority_rule U msg"
  shows "detect_state U msg =
           (if is_self_reflection U msg then SELF_REFLECTION else later_rules U msg)"
proof -
  have "strip msg \<noteq> []" using assms by (simp add: no_higher_priority_rule_def)
  moreover then have "msg \<noteq> []" by (auto simp: strip_def)
  ultimately show ?thesis using assms
    by (simp add: detect_state_def no_higher_priority_rule_def)
qed

lemma question_reflection:
  assumes "check_patterns U msg SELF_REFLECTION_PATTERNS" "is_question U msg"
  shows "is_self_reflection U msg = contains_override U msg"
  using assms by (simp add: is_self_reflection_def contains_override_def Let_def)

text \<open>
  Claim C7, amended. For a message that contains a self-reflection phrase, is not blank,
  matches no rule of higher priority and is interrogative, \<open>detect_state\<close> returns
  \<open>SELF_REFLECTION\<close> exactly when the normalized message contains, at any position, one of
  the six hard-coded phrases; otherwise the result is the one of the later rules.
\<close>
theorem interrogative_self_reflection:
  assumes "check_patterns U msg SELF_REFLECTION_PATTERNS" "no_higher_priority_rule U msg"
    "is_question U msg"
  shows "(detect_state U msg = SELF_REFLECTION \<longleftrightarrow> contains_override U msg) \<and>
         (\<not> contains_override U msg \<longrightarrow> detect_state U msg = later_rules U msg)"
  using detect_at_self_reflection[OF assms(2)] question_reflection[OF assms(1,3)]
    later_rules_not_reflection[of U msg]
  by auto

lemma why_like_math:
  "check_patterns py_unicode (ustr ''why do i like math'') SELF_REFLECTION_PATTERNS \<and>
   no_higher_priority_rule py_unicode (ustr ''why do i like math'') \<and>
   is_question py_unicode (ustr ''why do i like math'')"
  by (simp add: stmt_defs det_defs str_defs re_defs)

lemma how_find_job:
  "check_patterns py_unicode (ustr ''how do i find a job as chef'') SELF_REFLECTION_PATTERNS \<and>
   no_higher_priority_rule py_unicode (ustr ''how do i find a job as chef'') \<and>
   is_question py_unicode (ustr ''how do i find a job as chef'')"
  by (simp add: stmt_defs det_defs str_defs re_defs)

text \<open>
  Claim C7, as stated, at the message \<open>why do i like math\<close>: it contains a self-reflection
  phrase, matches no rule of higher priority, is interrogative and is classified as
  \<open>SELF_REFLECTION\<close>, but it does not begin with any of the six hard-coded phrases.
\<close>
theorem reflection_phrase_not_at_start:
  "check_patterns py_unicode (ustr ''why do i like math'') SELF_REFLECTION_PATTERNS \<and>
   no_higher_priority_rule py_unicode (ustr ''why do i like math'') \<and>
   is_question py_unicode (ustr ''why do i like math'') \<and>
   detect_state py_unicode (ustr ''why do i like math'') = SELF_REFLECTION \<and>
   \<not> begins_with_override py_unicode (ustr ''why do i like math'')"
proof -
  have "detect_state py_unicode (ustr ''why do i like math'') = SELF_REFLECTION"
    using detect_at_self_reflection[of py_unicode "ustr ''why do i like math''"] why_like_math
    by (simp add: is_self_reflection_def reflection_override_def str_defs)
  moreover have "\<not> begins_with_override py_unicode (ustr ''why do i like math'')"
    by (simp add: begins_with_override_def reflection_override_def str_defs)
  ultimately show ?thesis using why_like_math by blast
qed

theorem interrogative_self_reflection_witness:
  "check_patterns py_unicode (ustr ''why do i like math'') SELF_REFLECTION_PATTERNS \<and>
   no_higher_priority_rule py_unicode (ustr ''why do i like math'') \<and>
   is_question py_unicode (ustr ''why do i like math'') \<and>
   contains_override py_unicode (ustr ''why do i like math'') \<and>
   detect_state py_unicode (ustr ''why do i like math'') = SELF_REFLECTION \<and>
   check_patterns py_unicode (ustr ''how do i find a job as chef'') SELF_REFLECTION_PATTERNS \<and>
   no_higher_priority_rule py_unicode (ustr ''how do i find a job as chef'') \<and>
   is_question py_unicode (ustr ''how do i find a job as chef'') \<and>
   \<not> contains_override py_unicode (ustr ''how do i find a job as chef'') \<and>
   detect_state py_unicode (ustr ''how do i find a job as chef'') = CAREER_CURIOSITY"
proof -
  have a: "contains_override py_unicode (ustr ''why do i like math'')"
    by (simp add: contains_override_def reflection_override_def str_defs)
  have b: "\<not> contains_override py_unicode (ustr ''how do i find a job as chef'')"
    by (simp add: contains_override_def reflection_override_def str_defs)
  have c: "later_rules py_unicode (ustr ''how do i find a job as chef'') = CAREER_CURIOSITY"
    by (simp add: later_rules_def is_comparison_def is_career_curiosity_def check_patterns_def
        COMPARISON_PATTERNS_def CAREER_PATTERNS_def str_defs)
  show ?thesis
    using a b c why_like_math how_find_job
      interrogative_self_reflection[of py_unicode "ustr ''why do i like math''"]
      interrogative_self_reflection[of py_unicode "ustr ''how do i find a job as chef''"]
    by simp
qed

section \<open>The merge of trait lists\<close>

lemma update_member:
  "e \<in> set (AList.update k v al) \<Longrightarrow> e = (k, v) \<or> e \<in> set al"
  by (induction al) (auto split: if_splits)

lemma keyed_update: "keyed U al \<Longrightarrow> keyed U (AList.update (item_key U v) v al)"
proof -
  assume k: "keyed U al"
  have "item_key U (snd e) = fst e" if "e \<in> set (AList.update (item_key U v) v al)" for e
    using update_member[OF that] k by (auto simp: keyed_def)
  then show ?thesis using k by (simp add: keyed_def distinct_update)
qed

lemma keyed_existing_step: "keyed U al \<Longrightarrow> keyed U (merge_existing_step U al v)"
  by (simp add: merge_existing_step_def keyed_update)

lemma keyed_new_step: "keyed U al \<Longrightarrow> keyed U (merge_new_step U al v)"
  by (simp add: merge_new_step_def Let_def keyed_update split: option.splits)

lemma keyed_foldl_existing: "keyed U al \<Longrightarrow> keyed U (foldl (merge_existing_step U) al xs)"
  by (induction xs arbitrary: al) (simp_all add: keyed_existing_step)

lemma keyed_foldl_new: "keyed U al \<Longrightarrow> keyed U (foldl (merge_new_step U) al xs)"
  by (induction xs arbitrary: al) (simp_all add: keyed_new_step)

lemma keyed_values_distinct: "keyed U al \<Longrightarrow> distinct (map (item_key U) (map snd al))"
proof -
  assume k: "keyed U al"
  then have "map (item_key U \<circ> snd) al = map fst al" by (simp add: keyed_def)
  then have "map (item_key U) (map snd al) = map fst al" by simp
  then show ?thesis using k unfolding keyed_def by metis
qed

lemma merge_items_distinct: "distinct (map (item_key U) (merge_items U existing new))"
proof -
  have "keyed U []" by (simp add: keyed_def)
  then have "keyed U (foldl (merge_new_step U) (foldl (merge_existing_step U) [] existing) new)"
    by (intro keyed_foldl_new keyed_foldl_existing)
  then show ?thesis unfolding merge_items_def by (rule keyed_values_distinct)
qed

lemma update_fresh: "k \<notin> fst ` set al \<Longrightarrow> AList.update k v al = al @ [(k, v)]"
  by (induction al) auto

lemma foldl_existing_distinct:
  "distinct (map (item_key U) xs) \<Longrightarrow>
   foldl (merge_existing_step U) [] xs = map (\<lambda>x. (item_key U x, x)) xs"
proof (induction xs rule: rev_induct)
  case Nil
  then show ?case by simp
next
  case (snoc x xs)
  then have ih: "foldl (merge_existing_step U) [] xs = map (\<lambda>x. (item_key U x, x)) xs"
    by simp
  have "item_key U x \<notin> fst ` set (map (\<lambda>x. (item_key U x, x)) xs)"
    using snoc.prems by (auto simp: image_iff)
  then have "merge_existing_step U (map (\<lambda>x. (item_key U x, x)) xs) x =
             map (\<lambda>x. (item_key U x, x)) xs @ [(item_key U x, x)]"
    unfolding merge_existing_step_def by (rule update_fresh)
  moreover have "foldl (merge_existing_step U) [] (xs @ [x]) =
                 merge_existing_step U (foldl (merge_existing_step U) [] xs) x" by simp
  ultimately show ?case using ih by simp
qed

lemma update_pairs:
  "distinct (map (item_key U) xs) \<Longrightarrow>
   map snd (AList.update k n (map (\<lambda>x. (item_key U x, x)) xs)) =
     (if k \<in> item_key U ` set xs then map (\<lambda>e. if item_key U e = k then n else e) xs
      else xs @ [n])"
proof (induction xs)
  case Nil
  then show ?case by simp
next
  case (Cons x xs)
  show ?case
  proof (cases "item_key U x = k")
    case True
    then have "k \<notin> item_key U ` set xs" using Cons.prems by auto
    then have "map (\<lambda>e. if item_key U e = k then n else e) xs = xs"
      by (induction xs) auto
    then show ?thesis using True by (simp add: comp_def)
  next
    case False
    then show ?thesis using Cons by auto
  qed
qed

lemma map_of_pairs_Some:
  "map_of (map (\<lambda>x. (item_key U x, x)) xs) k = Some old \<Longrightarrow>
   old \<in> set xs \<and> item_key U old = k"
  by (induction xs) (auto split: if_splits)

lemma map_of_pairs_None:
  "map_of (map (\<lambda>x. (item_key U x, x)) xs) k = None \<Longrightarrow> k \<notin> item_key U ` set xs"
  by (induction xs) (auto split: if_splits)

lemma distinct_key_unique:
  "distinct (map (item_key U) xs) \<Longrightarrow> a \<in> set xs \<Longrightarrow> b \<in> set xs \<Longrightarrow>
   item_key U a = item_key U b \<Longrightarrow> a = b"
  by (meson distinct_map inj_on_def)

lemma merge_items_single:
  assumes d: "distinct (map (item_key U) existing)"
  shows "merge_items U existing [n] =
     (if item_key U n \<in> item_key U ` set existing
      then map (\<lambda>e. if item_key U e = item_key U n \<and> item_conf n > item_conf e then n else e)
               existing
      else existing @ [n])"
proof (cases "map_of (map (\<lambda>x. (item_key U x, x)) existing) (item_key U n)")
  case None
  then have "item_key U n \<notin> item_key U ` set existing" by (rule map_of_pairs_None)
  then show ?thesis using None d
    by (simp add: merge_items_def foldl_existing_distinct merge_new_step_def update_pairs)
next
  case (Some old)
  then have o: "old \<in> set existing" "item_key U old = item_key U n"
    using map_of_pairs_Some by blast+
  then have mem: "item_key U n \<in> item_key U ` set existing" by (metis imageI)
  have uniq: "e = old" if "e \<in> set existing" "item_key U e = item_key U n" for e
    using distinct_key_unique[OF d that(1) o(1)] that(2) o(2) by simp
  show ?thesis
  proof (cases "item_conf n > item_conf old")
    case True
    have "map (\<lambda>e. if item_key U e = item_key U n then n else e) existing =
          map (\<lambda>e. if item_key U e = item_key U n \<and> item_conf n > item_conf e then n else e)
              existing"
      using uniq True by (intro map_cong) auto
    then show ?thesis using Some True d mem
      by (simp add: merge_items_def foldl_existing_distinct merge_new_step_def update_pairs)
  next
    case False
    have "map (\<lambda>e. if item_key U e = item_key U n \<and> item_conf n > item_conf e then n else e)
              existing = map (\<lambda>e. e) existing"
      using uniq False by (intro map_cong) auto
    then show ?thesis using Some False d mem
      by (simp add: merge_items_def foldl_existing_distinct merge_new_step_def comp_def)
  qed
qed

lemma keyed_rebuild: "keyed U al \<Longrightarrow> map (\<lambda>x. (item_key U x, x)) (map snd al) = al"
  unfolding keyed_def by (induction al) auto

lemma merge_items_Cons:
  assumes d: "distinct (map (item_key U) existing)"
  shows "merge_items U existing (n # ns) = merge_items U (merge_items U existing [n]) ns"
proof -
  let ?al = "merge_new_step U (foldl (merge_existing_step U) [] existing) n"
  have "keyed U []" by (simp add: keyed_def)
  then have k: "keyed U ?al" by (intro keyed_new_step keyed_foldl_existing)
  have "foldl (merge_existing_step U) [] (map snd ?al) = ?al"
    using foldl_existing_distinct[OF keyed_values_distinct[OF k]] keyed_rebuild[OF k] by simp
  then show ?thesis by (simp add: merge_items_def)
qed

lemma merge_items_Nil:
  "distinct (map (item_key U) existing) \<Longrightarrow> merge_items U existing [] = existing"
  by (simp add: merge_items_def foldl_existing_distinct comp_def)

text \<open>
  Claim C4, as stated, at a confidence tie: merging the stored entry \<open>reading\<close> (0.8) with the
  incoming entry \<open>Reading\<close> (0.8) keeps the stored entry, not the incoming one, because the
  incoming entry replaces the stored one only if its confidence is strictly greater.
\<close>
theorem merge_tie_keeps_existing:
  "merge_items py_unicode [mk_trait (ustr ''reading'') 0.8] [mk_trait (ustr ''Reading'') 0.8] =
     [mk_trait (ustr ''reading'') 0.8] \<and>
   merge_items py_unicode [mk_trait (ustr ''reading'') 0.8] [mk_trait (ustr ''Reading'') 0.8] \<noteq>
     [mk_trait (ustr ''Reading'') 0.8]"
  by (simp add: item_defs)

text \<open>
  Claim C4, amended. The merge is keyed by the lowercased content, whatever \<open>str.lower\<close> is.
  For a stored list without duplicate keys: merging no entry changes nothing; the incoming
  entries are merged one after the other; an incoming entry with a new key is appended; an
  incoming entry whose key is present replaces the stored entry, in its place, if its
  confidence is strictly higher, and is dropped otherwise, so that at a tie the stored entry
  stays. Merging \<open>reading\<close> (0.8) with the incoming \<open>Reading\<close> (0.9) gives the one entry
  \<open>Reading\<close> with confidence 0.9, whose key is \<open>reading\<close>.
\<close>
theorem merge_items_by_key:
  "(distinct (map (item_key U) existing) \<longrightarrow>
      merge_items U existing [] = existing \<and>
      merge_items U existing (n # ns) = merge_items U (merge_items U existing [n]) ns \<and>
      merge_items U existing [n] =
        (if item_key U n \<in> item_key U ` set existing
         then map (\<lambda>e. if item_key U e = item_key U n \<and> item_conf n > item_conf e
                        then n else e) existing
         else existing @ [n])) \<and>
   merge_items py_unicode [mk_trait (ustr ''reading'') 0.8] [mk_trait (ustr ''Reading'') 0.9] =
     [mk_trait (ustr ''Reading'') 0.9] \<and>
   item_key py_unicode (mk_trait (ustr ''Reading'') 0.9) = ustr ''reading''"
proof -
  have "merge_items py_unicode [mk_trait (ustr ''reading'') 0.8]
          [mk_trait (ustr ''Reading'') 0.9] = [mk_trait (ustr ''Reading'') 0.9]"
    by (simp add: item_defs)
  moreover have "item_key py_unicode (mk_trait (ustr ''Reading'') 0.9) = ustr ''reading''"
    by (simp add: item_defs)
  ultimately show ?thesis
    using merge_items_Nil[of U existing] merge_items_Cons[of U existing n ns]
      merge_items_single[of U existing n]
    by blast
qed

theorem merge_items_by_key_witness:
  "distinct (map (item_key py_unicode)
     [mk_trait (ustr ''reading'') 0.8, mk_trait (ustr ''chess'') 0.5]) \<and>
   merge_items py_unicode [mk_trait (ustr ''reading'') 0.8, mk_trait (ustr ''chess'') 0.5]
               [mk_trait (ustr ''Chess'') 0.7] =
     [mk_trait (ustr ''reading'') 0.8, mk_trait (ustr ''Chess'') 0.7] \<and>
   merge_items py_unicode [mk_trait (ustr ''reading'') 0.8, mk_trait (ustr ''chess'') 0.5]
               [mk_trait (ustr ''Chess'') 0.5] =
     [mk_trait (ustr ''reading'') 0.8, mk_trait (ustr ''chess'') 0.5]"
proof -
  have d: "distinct (map (item_key py_unicode)
             [mk_trait (ustr ''reading'') 0.8, mk_trait (ustr ''chess'') 0.5])"
    by (simp add: item_defs)
  show ?thesis
    using d
      merge_items_by_key[of py_unicode
        "[mk_trait (ustr ''reading'') 0.8, mk_trait (ustr ''chess'') 0.5]"
        "mk_trait (ustr ''Chess'') 0.7" "[]"]
      merge_items_by_key[of py_unicode
        "[mk_trait (ustr ''reading'') 0.8, mk_trait (ustr ''chess'') 0.5]"
        "mk_trait (ustr ''Chess'') 0.5" "[]"]
    by (simp add: item_defs)
qed

section \<open>The stored profile\<close>

lemma merge_field_distinct:
  "distinct (map (item_key U) xs) \<Longrightarrow> distinct (map (item_key U) (merge_field U xs new))"
  by (auto simp: merge_field_def merge_items_distinct split: option.splits list.splits)

lemma get_or_create_deduplicated:
  "store_deduplicated U st \<Longrightarrow> deduplicated U (fst (get_or_create_profile st sid)) \<and>
     store_deduplicated U (snd (get_or_create_profile st sid))"
  by (auto simp: get_or_create_profile_def store_deduplicated_def deduplicated_def
      empty_profile_def split: option.splits)

lemma update_profile_deduplicated:
  assumes "store_deduplicated U st"
  shows "store_deduplicated U (snd (update_profile U st sid ex))"
proof -
  obtain p st1 where g: "get_or_create_profile st sid = (p, st1)" by fastforce
  have d: "deduplicated U p" and s1: "store_deduplicated U st1"
    using get_or_create_deduplicated[OF assms, of sid] g by simp_all
  show ?thesis using d s1
    by (simp add: update_profile_def g Let_def store_deduplicated_def deduplicated_def
        merge_field_distinct)
qed

lemma run_updates_deduplicated:
  "store_deduplicated U st \<Longrightarrow> store_deduplicated U (run_updates U st ops)"
  by (induction U st ops rule: run_updates.induct) (simp_all add: update_profile_deduplicated)

text \<open>
  Claim C8. After any sequence of \<open>update_profile\<close> calls on an empty store, in every stored
  profile the lists of interests, dislikes, strengths and challenges hold no two entries with
  the same key, the key of an entry being its content lowercased by \<open>str.lower\<close>, whatever
  that function is.
\<close>
theorem profile_never_holds_duplicates:
  "run_updates U Map.empty ops sid = Some p \<Longrightarrow>
     distinct (map (item_key U) (interests p)) \<and> distinct (map (item_key U) (dislikes p)) \<and>
     distinct (map (item_key U) (strengths p)) \<and> distinct (map (item_key U) (challenges p))"
proof -
  assume a: "run_updates U Map.empty ops sid = Some p"
  have "store_deduplicated U Map.empty" by (simp add: store_deduplicated_def)
  then have "store_deduplicated U (run_updates U Map.empty ops)"
    by (rule run_updates_deduplicated)
  with a have "deduplicated U p" unfolding store_deduplicated_def by blast
  then show ?thesis by (simp add: deduplicated_def)
qed

theorem profile_never_holds_duplicates_witness:
  "run_updates py_unicode Map.empty
     [(1, [''interests'' \<mapsto> [mk_trait (ustr ''reading'') 0.8, mk_trait (ustr ''Reading'') 0.9]]),
      (1, [''interests'' \<mapsto> [mk_trait (ustr ''READING'') 0.8, mk_trait (ustr ''chess'') 0.8]])] 1
   = Some (empty_profile\<lparr>interests :=
             [mk_trait (ustr ''Reading'') 0.9, mk_trait (ustr ''chess'') 0.8]\<rparr>) \<and>
   distinct (map (item_key py_unicode)
     [mk_trait (ustr ''Reading'') 0.9, mk_trait (ustr ''chess'') 0.8])"
proof -
  have r: "run_updates py_unicode Map.empty
     [(1, [''interests'' \<mapsto> [mk_trait (ustr ''reading'') 0.8, mk_trait (ustr ''Reading'') 0.9]]),
      (1, [''interests'' \<mapsto> [mk_trait (ustr ''READING'') 0.8, mk_trait (ustr ''chess'') 0.8]])] 1
   = Some (empty_profile\<lparr>interests :=
             [mk_trait (ustr ''Reading'') 0.9, mk_trait (ustr ''chess'') 0.8]\<rparr>)"
    by (simp add: update_profile_def get_or_create_profile_def merge_field_def empty_profile_def
        item_defs)
  show ?thesis using r profile_never_holds_duplicates[OF r] by simp
qed

lemma merge_field_falsy: "falsy v \<Longrightarrow> merge_field U xs v = xs"
  by (auto simp: falsy_def merge_field_def)

text \<open>
  Claim C10. For each of the five categories, if the extractions omit the category or map it
  to the empty list, the list of that category in the updated profile is the list the profile
  had (the empty list for a profile created by this call); the updated profile is the one
  stored; and the all-empty extractions of a message without matches leave the whole profile
  as it was.
\<close>
theorem update_profile_frame:
  "(falsy (ex ''interests'') \<longrightarrow>
      interests (fst (update_profile U st sid ex)) =
      interests (fst (get_or_create_profile st sid))) \<and>
   (falsy (ex ''dislikes'') \<longrightarrow>
      dislikes (fst (update_profile U st sid ex)) =
      dislikes (fst (get_or_create_profile st sid))) \<and>
   (falsy (ex ''strengths'') \<longrightarrow>
      strengths (fst (update_profile U st sid ex)) =
      strengths (fst (get_or_create_profile st sid))) \<and>
   (falsy (ex ''challenges'') \<longrightarrow>
      challenges (fst (update_profile U st sid ex)) =
      challenges (fst (get_or_create_profile st sid))) \<and>
   (falsy (ex ''career_mentions'') \<longrightarrow>
      career_mentions (fst (update_profile U st sid ex)) =
      career_mentions (fst (get_or_create_profile st sid))) \<and>
   snd (update_profile U st sid ex) sid = Some (fst (update_profile U st sid ex)) \<and>
   fst (update_profile U st sid empty_extractions) = fst (get_or_create_profile st sid)"
proof -
  have e: "falsy (empty_extractions k)" for k by (simp add: falsy_def empty_extractions_def)
  show ?thesis
    by (auto simp: update_profile_def Let_def merge_field_falsy e split: prod.splits)
qed

theorem update_profile_frame_witness:
  "falsy ([''interests'' \<mapsto> []] ''interests'') \<and> falsy ([''interests'' \<mapsto> []] ''dislikes'') \<and>
   falsy ([''interests'' \<mapsto> []] ''strengths'') \<and> falsy ([''interests'' \<mapsto> []] ''challenges'') \<and>
   falsy ([''interests'' \<mapsto> []] ''career_mentions'') \<and>
   interests (fst (update_profile py_unicode store_reading 1 [''interests'' \<mapsto> []])) =
     [mk_trait (ustr ''reading'') 0.8] \<and>
   dislikes (fst (update_profile py_unicode store_reading 1 [''interests'' \<mapsto> []])) = []"
proof -
  let ?ex = "[''interests'' \<mapsto> []] :: extractions"
  have f: "falsy (?ex k)" for k
    by (simp add: falsy_def)
  have g: "fst (get_or_create_profile store_reading 1) =
           empty_profile\<lparr>interests := [mk_trait (ustr ''reading'') 0.8]\<rparr>"
    by (simp add: get_or_create_profile_def store_reading_def)
  have "interests (fst (update_profile py_unicode store_reading 1 ?ex)) =
        interests (fst (get_or_create_profile store_reading 1))"
    using update_profile_frame[of ?ex py_unicode store_reading 1] f by blast
  moreover have "dislikes (fst (update_profile py_unicode store_reading 1 ?ex)) =
        dislikes (fst (get_or_create_profile store_reading 1))"
    using update_profile_frame[of ?ex py_unicode store_reading 1] f by blast
  ultimately show ?thesis by (simp add: g empty_profile_def falsy_def)
qed

section \<open>The rate limit of memory references\<close>

text \<open>
  Claim C6, on the code, at turn index 1: for a referencer that never recorded a reference
  and a student whose profile has an interest, \<open>should_reference_memory\<close> returns true when
  the random draw is 0.1, where the claim and the rate-limiting test of the repository
  (\<open>First few messages shouldn't reference\<close>) say false.
\<close>
theorem fresh_identity_referenced_at_turn_1:
  "fst (should_reference_memory (new_referencer 5) store_reading 1 1 0.1) = True"
  by (simp add: should_reference_memory_def new_referencer_def store_reading_def
      get_profile_summary_def get_or_create_profile_def has_memories_def contents_of_def
      empty_profile_def mk_trait_def ustr_def)

text \<open>
  What the code does for an identity without a recorded reference: the default last index
  is minus the window length, so the rate limit blocks no turn index from 0 on, and the
  result is true exactly when the profile summary has a memory and the random draw is below
  0.4.
\<close>
lemma fresh_identity_not_rate_limited:
  assumes "last_reference_message_idx r sid = None" "0 \<le> idx"
  shows "fst (should_reference_memory r st sid idx rnd) =
           (has_memories (fst (get_profile_summary st sid)) \<and> rnd < 0.4)"
  using assms by (auto simp: should_reference_memory_def Let_def split: prod.splits)

text \<open>
  Claim C9. Once \<open>record_reference_used\<close> has recorded a reference of an identity at turn
  \<open>t1\<close>, \<open>should_reference_memory\<close> returns false for that identity at every turn \<open>t2\<close>
  with \<open>t2 - t1\<close> below the window length (5 by default), whatever the store and the
  random draw.
\<close>
theorem no_second_reference_within_window:
  assumes "t2 - t1 < min_messages_between r"
  shows "fst (should_reference_memory (record_reference_used r sid t1) st sid t2 rnd) = False"
  using assms by (simp add: should_reference_memory_def record_reference_used_def)

theorem no_second_reference_within_window_witness:
  "(9::int) - 5 < min_messages_between (new_referencer 5) \<and>
   fst (should_reference_memory (new_referencer 5) store_reading 1 5 0.1) \<and>
   \<not> fst (should_reference_memory (record_reference_used (new_referencer 5) 1 5)
             store_reading 1 9 0.1)"
proof -
  have a: "(9::int) - 5 < min_messages_between (new_referencer 5)"
    by (simp add: new_referencer_def)
  have b: "fst (should_reference_memory (new_referencer 5) store_reading 1 5 0.1)"
    by (simp add: should_reference_memory_def new_referencer_def store_reading_def
        get_profile_summary_def get_or_create_profile_def has_memories_def contents_of_def
        empty_profile_def mk_trait_def ustr_def)
  show ?thesis
    using a b no_second_reference_within_window[OF a, of 1 store_reading "0.1"] by simp
qed

section \<open>The response guardrails\<close>

lemma three_emoji_count: "count_emojis three_emoji_text = 1"
  by (simp add: three_emoji_text_def count_emojis_def emoji_findall_def is_emoji_def ustr_def)

lemma no_emoji_violation:
  "count_emojis text \<le> 1 \<Longrightarrow> TooManyEmojis n \<notin> set (snd (validate_response U text state))"
  by (simp add: validate_response_def Let_def)

text \<open>
  Claim C5, on the code: in \<open>(three emoji) great!\<close> the three adjacent emoji are one match of
  the pattern, so \<open>count_emojis\<close> returns 1, \<open>validate_response\<close> reports no emoji violation
  for any state, and for the state \<open>CAREER_CURIOSITY\<close> it reports no violation at all; the
  text with one emoji has no violation either.
\<close>
theorem emoji_run_counted_once:
  "emoji_findall three_emoji_text = [[0x1F60A, 0x1F389, 0x1F44D]] \<and>
   count_emojis three_emoji_text = 1 \<and>
   TooManyEmojis n \<notin> set (snd (validate_response U three_emoji_text state)) \<and>
   validate_response py_unicode three_emoji_text CAREER_CURIOSITY = (True, []) \<and>
   count_emojis one_emoji_text = 1 \<and>
   validate_response py_unicode one_emoji_text CAREER_CURIOSITY = (True, [])"
proof -
  have "TooManyEmojis n \<notin> set (snd (validate_response U three_emoji_text state))"
    by (rule no_emoji_violation) (simp add: three_emoji_count)
  moreover have "emoji_findall three_emoji_text = [[0x1F60A, 0x1F389, 0x1F44D]] \<and>
   count_emojis three_emoji_text = 1 \<and>
   validate_response py_unicode three_emoji_text CAREER_CURIOSITY = (True, []) \<and>
   count_emojis one_emoji_text = 1 \<and>
   validate_response py_unicode one_emoji_text CAREER_CURIOSITY = (True, [])"
    by (simp add: three_emoji_text_def one_emoji_text_def val_defs str_defs)
  ultimately show ?thesis by blast
qed

text \<open>
  Claim C2, as stated, at the text \<open>I'm sorry (dash) I don't have the right context\<close>: it is
  valid for \<open>OUT_OF_SCOPE\<close> although it does not start with the canonical response, of which
  it is only the beginning of the first sentence.
\<close>
theorem prefix_of_canonical_is_valid:
  "fst (validate_response py_unicode expected_start OUT_OF_SCOPE) \<and>
   \<not> startswith expected_start CANONICAL_OUT_OF_SCOPE_RESPONSE"
  by (simp add: CANONICAL_OUT_OF_SCOPE_RESPONSE_def val_defs str_defs)

lemma missing_prefix_rejected:
  "\<not> startswith (strip text) expected_start \<Longrightarrow>
     \<not> fst (validate_response U text OUT_OF_SCOPE) \<and>
     MustUseCanonical \<in> set (snd (validate_response U text OUT_OF_SCOPE))"
  by (simp add: validate_response_def Let_def)

lemma out_of_scope_valid_iff:
  "fst (validate_response U text OUT_OF_SCOPE) \<longleftrightarrow>
      startswith (strip text) expected_start \<and> count_questions text = 0 \<and>
      count_emojis text \<le> 1 \<and> check_forbidden_phrases U text = [] \<and>
      count_paragraphs text \<le> 5"
  by (auto simp: validate_response_def max_questions_for_def Let_def)

text \<open>
  Claim C2, amended. A text is valid for \<open>OUT_OF_SCOPE\<close> exactly when, stripped of
  surrounding whitespace, it starts with the fixed beginning \<open>expected_start\<close> of the
  canonical response and it passes the other checks: no question mark, at most one emoji
  match, no forbidden phrase in the lowercased text, at most five paragraphs. A text that
  does not start so is invalid, with the canonical-response violation among its violations.
  This holds whatever \<open>str.lower\<close> is.
\<close>
theorem out_of_scope_validation:
  "(fst (validate_response U text OUT_OF_SCOPE) \<longleftrightarrow>
      startswith (strip text) expected_start \<and> count_questions text = 0 \<and>
      count_emojis text \<le> 1 \<and> check_forbidden_phrases U text = [] \<and>
      count_paragraphs text \<le> 5) \<and>
   (\<not> startswith (strip text) expected_start \<longrightarrow>
      \<not> fst (validate_response U text OUT_OF_SCOPE) \<and>
      MustUseCanonical \<in> set (snd (validate_response U text OUT_OF_SCOPE)))"
  using missing_prefix_rejected out_of_scope_valid_iff by blast

theorem out_of_scope_validation_witness:
  "\<not> startswith (strip (ustr ''Please ask a teacher.'')) expected_start \<and>
   validate_response py_unicode (ustr ''Please ask a teacher.'') OUT_OF_SCOPE =
     (False, [MustUseCanonical])"
proof -
  have a: "\<not> startswith (strip (ustr ''Please ask a teacher.'')) expected_start"
    by (simp add: expected_start_def str_defs)
  have b: "snd (validate_response py_unicode (ustr ''Please ask a teacher.'') OUT_OF_SCOPE) =
           [MustUseCanonical]"
    by (simp add: val_defs str_defs)
  show ?thesis
    using a b out_of_scope_validation[of py_unicode "ustr ''Please ask a teacher.''"]
    by (simp add: prod_eq_iff)
qed

text \<open>
  The constant \<open>CANONICAL_OUT_OF_SCOPE_RESPONSE\<close> as \<open>conversation/constants.py\<close> holds
  it does not start with \<open>expected_start\<close>, whose dash is another character, and is
  rejected for \<open>OUT_OF_SCOPE\<close>.
\<close>
lemma canonical_constant_rejected:
  "\<not> fst (validate_response U CANONICAL_OUT_OF_SCOPE_RESPONSE OUT_OF_SCOPE) \<and>
   MustUseCanonical \<in>
     set (snd (validate_response U CANONICAL_OUT_OF_SCOPE_RESPONSE OUT_OF_SCOPE))"
proof (rule missing_prefix_rejected)
  show "\<not> startswith (strip CANONICAL_OUT_OF_SCOPE_RESPONSE) expected_start"
    by (simp add: CANONICAL_OUT_OF_SCOPE_RESPONSE_def expected_start_def str_defs)
qed

end
